theory Spec2Isabelle
  imports Complex_Main
begin

section \<open>Python values\<close>

text \<open>
  The service of \<^verbatim>\<open>omnidimension_service.py\<close> moves JSON-like Python values around:
  dictionaries received from callers and from the provider's client library. They are
  modelled by one datatype. A dictionary is an association list with string keys that is
  read with \<open>map_of\<close> (the first binding of a key is the binding). A float is read as
  the real number it denotes (the only float of the source is the literal \<^verbatim>\<open>0.0\<close>).
  A Python \<^verbatim>\<open>str\<close> held in a value is a \<open>string\<close> whose characters are code points
  below 256; the validation of phone numbers is modelled on strings of arbitrary code points.
\<close>

datatype pyval =
    VNone
  | VBool bool
  | VInt int
  | VFloat real
  | VStr string
  | VList "pyval list"
  | VDict "(string \<times> pyval) list"

type_synonym pydict = "(string \<times> pyval) list"

text \<open>
  Exceptions derived from \<^verbatim>\<open>Exception\<close>. \<open>OtherError cls msg\<close> is any other such
  exception raised by the client library. Interrupts and process exit are outside the model.
\<close>

datatype exn =
    ValueError string
  | TypeError string
  | AttributeError string
  | OtherError string string

text \<open>\<^verbatim>\<open>str(e)\<close> for an exception built from one message.\<close>

fun exn_str :: "exn \<Rightarrow> string" where
  "exn_str (ValueError m) = m"
| "exn_str (TypeError m) = m"
| "exn_str (AttributeError m) = m"
| "exn_str (OtherError c m) = m"

text \<open>Truth value testing, as \<^verbatim>\<open>if x\<close>, \<^verbatim>\<open>not x\<close> and \<^verbatim>\<open>x or y\<close> do it.\<close>

fun truthy :: "pyval \<Rightarrow> bool" where
  "truthy VNone = False"
| "truthy (VBool b) = b"
| "truthy (VInt i) = (i \<noteq> 0)"
| "truthy (VFloat r) = (r \<noteq> 0)"
| "truthy (VStr s) = (s \<noteq> [])"
| "truthy (VList xs) = (xs \<noteq> [])"
| "truthy (VDict d) = (d \<noteq> [])"

definition py_or :: "pyval \<Rightarrow> pyval \<Rightarrow> pyval" where
  "py_or a b = (if truthy a then a else b)"

fun type_name :: "pyval \<Rightarrow> string" where
  "type_name VNone = ''NoneType''"
| "type_name (VBool b) = ''bool''"
| "type_name (VInt i) = ''int''"
| "type_name (VFloat r) = ''float''"
| "type_name (VStr s) = ''str''"
| "type_name (VList xs) = ''list''"
| "type_name (VDict d) = ''dict''"

definition no_attribute :: "pyval \<Rightarrow> string \<Rightarrow> exn" where
  "no_attribute v a =
     AttributeError ([CHR 0x27] @ type_name v @ [CHR 0x27] @ '' object has no attribute ''
                     @ [CHR 0x27] @ a @ [CHR 0x27])"

text \<open>\<^verbatim>\<open>d.get(k)\<close>, \<^verbatim>\<open>d.get(k, default)\<close> and \<^verbatim>\<open>k in d\<close> on a dictionary.\<close>

definition dict_get :: "pydict \<Rightarrow> string \<Rightarrow> pyval" where
  "dict_get d k = (case map_of d k of None \<Rightarrow> VNone | Some v \<Rightarrow> v)"

definition dict_get_default :: "pydict \<Rightarrow> string \<Rightarrow> pyval \<Rightarrow> pyval" where
  "dict_get_default d k dflt = (case map_of d k of None \<Rightarrow> dflt | Some v \<Rightarrow> v)"

definition dict_has :: "pydict \<Rightarrow> string \<Rightarrow> bool" where
  "dict_has d k = (map_of d k \<noteq> None)"

text \<open>\<^verbatim>\<open>d[k] = v\<close> and \<^verbatim>\<open>{**d, k: v}\<close>: an existing key keeps its place.\<close>

fun dict_set :: "('k \<times> 'v) list \<Rightarrow> 'k \<Rightarrow> 'v \<Rightarrow> ('k \<times> 'v) list" where
  "dict_set [] k v = [(k, v)]"
| "dict_set ((k', v') # d) k v = (if k' = k then (k, v) # d else (k', v') # dict_set d k v)"

text \<open>\<^verbatim>\<open>v.get(k)\<close> on a value of any type: only a dictionary has the method.\<close>

definition py_get :: "pyval \<Rightarrow> string \<Rightarrow> exn + pyval" where
  "py_get v k = (case v of VDict d \<Rightarrow> Inr (dict_get d k) | _ \<Rightarrow> Inl (no_attribute v ''get''))"

section \<open>Utility methods\<close>

text \<open>
  \<^verbatim>\<open>_handle_response\<close>: a dictionary holding the key \<^verbatim>\<open>json\<close> is replaced by the value
  under that key; everything else is returned as it is.
\<close>

definition handle_response :: "pyval \<Rightarrow> pyval" where
  "handle_response response =
     (case response of
        VDict d \<Rightarrow> (if dict_has d ''json'' then dict_get d ''json'' else response)
      | _ \<Rightarrow> response)"

text \<open>
  The characters of a Python string are code points, here natural numbers. \<^verbatim>\<open>str.isdigit\<close>
  is true of the code points whose Unicode numeric type is Decimal or Digit: the ten
  characters \<^verbatim>\<open>0\<close> to \<^verbatim>\<open>9\<close> (48 to 57) and 778 others, listed here as inclusive
  ranges (Unicode 14.0.0, the character database of CPython 3.11). The first of them are
  the superscripts two, three and one; the later ones are the digits of other scripts and
  the circled, parenthesised and styled digits.
\<close>

definition other_digit_ranges :: "(nat \<times> nat) list" where
  "other_digit_ranges =
    [(178, 179), (185, 185), (1632, 1641), (1776, 1785), (1984, 1993), (2406, 2415),
     (2534, 2543), (2662, 2671), (2790, 2799), (2918, 2927), (3046, 3055), (3174, 3183),
     (3302, 3311), (3430, 3439), (3558, 3567), (3664, 3673), (3792, 3801), (3872, 3881),
     (4160, 4169), (4240, 4249), (4969, 4977), (6112, 6121), (6160, 6169), (6470, 6479),
     (6608, 6618), (6784, 6793), (6800, 6809), (6992, 7001), (7088, 7097), (7232, 7241),
     (7248, 7257), (8304, 8304), (8308, 8313), (8320, 8329), (9312, 9320), (9332, 9340),
     (9352, 9360), (9450, 9450), (9461, 9469), (9471, 9471), (10102, 10110), (10112, 10120),
     (10122, 10130), (42528, 42537), (43216, 43225), (43264, 43273), (43472, 43481),
     (43504, 43513), (43600, 43609), (44016, 44025), (65296, 65305), (66720, 66729),
     (68160, 68163), (68912, 68921), (69216, 69224), (69714, 69722), (69734, 69743),
     (69872, 69881), (69942, 69951), (70096, 70105), (70384, 70393), (70736, 70745),
     (70864, 70873), (71248, 71257), (71360, 71369), (71472, 71481), (71904, 71913),
     (72016, 72025), (72784, 72793), (73040, 73049), (73120, 73129), (92768, 92777),
     (92864, 92873), (93008, 93017), (120782, 120831), (123200, 123209), (123632, 123641),
     (125264, 125273), (127232, 127242), (130032, 130041)]"

definition in_ranges :: "nat \<Rightarrow> (nat \<times> nat) list \<Rightarrow> bool" where
  "in_ranges c ranges = list_ex (\<lambda>(lo, hi). lo \<le> c \<and> c \<le> hi) ranges"

definition isdigit :: "nat \<Rightarrow> bool" where
  "isdigit c = in_ranges c ((48, 57) # other_digit_ranges)"

text \<open>\<^verbatim>\<open>phone.replace('+', '')\<close>: the plus sign is the code point 43.\<close>

definition remove_plus :: "nat list \<Rightarrow> nat list" where
  "remove_plus phone = filter (\<lambda>c. c \<noteq> 43) phone"

text \<open>\<^verbatim>\<open>_validate_phone_number\<close> on a string, given by its code points.\<close>

definition validate_phone_str :: "nat list \<Rightarrow> bool" where
  "validate_phone_str phone =
     (if phone = [] then False
      else let clean_phone = filter isdigit (remove_plus phone)
           in length clean_phone \<ge> 10 \<and> length clean_phone \<le> 15)"

text \<open>The code points of a string held in a value.\<close>

definition code_points :: "string \<Rightarrow> nat list" where
  "code_points s = map of_char s"

text \<open>
  \<^verbatim>\<open>_validate_phone_number\<close> on a value of any type. A falsy argument is invalid; a
  truthy argument that is not a string has no method \<^verbatim>\<open>replace\<close>.
\<close>

definition validate_phone_number :: "pyval \<Rightarrow> exn + bool" where
  "validate_phone_number phone =
     (case phone of
        VStr s \<Rightarrow> Inr (validate_phone_str (code_points s))
      | _ \<Rightarrow> if \<not> truthy phone then Inr False else Inl (no_attribute phone ''replace''))"

text \<open>\<^verbatim>\<open>_validate_agent_config\<close>: the loop over the required fields.\<close>

fun check_required :: "pydict \<Rightarrow> string list \<Rightarrow> exn + bool" where
  "check_required config [] = Inr True"
| "check_required config (field # rest) =
     (if \<not> truthy (dict_get config field)
      then Inl (ValueError (''Agent configuration missing required field: '' @ field))
      else check_required config rest)"

definition validate_agent_config :: "pydict \<Rightarrow> exn + bool" where
  "validate_agent_config config =
     check_required config [''name'', ''welcome_message'', ''call_type'']"

section \<open>The service and what surrounds it\<close>

text \<open>
  The world outside the service object: the clock that \<^verbatim>\<open>time.time()\<close> and
  \<^verbatim>\<open>datetime.now(UTC)\<close> read (whole seconds; \<^verbatim>\<open>time.sleep\<close> advances it), the state
  of the provider behind the client library, and a log of what the retry wrapper did:
  one \<open>Attempt\<close> for each invocation of the wrapped operation and one \<open>Slept n\<close> for each
  \<^verbatim>\<open>time.sleep(n)\<close>. Console output (\<^verbatim>\<open>print\<close>) is not modelled.
\<close>

datatype event = Attempt | Slept int

record 'x world =
  clock :: int
  events :: "event list"
  provider :: 'x

text \<open>
  Library functions of Python that the service calls and that are taken as parameters:
  \<^verbatim>\<open>str()\<close> (also the formatting of a value inside an f-string), and \<^verbatim>\<open>strftime\<close> with
  the formats \<^verbatim>\<open>%Y-%m-%d %H:%M:%S\<close> and \<^verbatim>\<open>%B %d, %Y\<close> on a time given in seconds.
\<close>

record pylib =
  str_of :: "pyval \<Rightarrow> string"
  fmt_datetime :: "int \<Rightarrow> string"
  fmt_long_date :: "int \<Rightarrow> string"

text \<open>
  The operations of the provider's client (\<^verbatim>\<open>self.client.agent.create\<close>,
  \<^verbatim>\<open>self.client.agent.get_agent\<close>, \<^verbatim>\<open>self.client.call.dispatch_call\<close>,
  \<^verbatim>\<open>self.client.call.get_call_log\<close>, \<^verbatim>\<open>self.client.call.get_call_logs\<close>). Each one
  either raises or returns a value, and may change the provider's state. Keyword arguments
  are passed as a dictionary.
\<close>

record 'x client =
  agent_create :: "pydict \<Rightarrow> 'x \<Rightarrow> (exn + pyval) \<times> 'x"
  agent_get_agent :: "pyval \<Rightarrow> 'x \<Rightarrow> (exn + pyval) \<times> 'x"
  call_dispatch_call :: "pydict \<Rightarrow> 'x \<Rightarrow> (exn + pyval) \<times> 'x"
  call_get_call_log :: "pyval \<Rightarrow> 'x \<Rightarrow> (exn + pyval) \<times> 'x"
  call_get_call_logs :: "pydict \<Rightarrow> 'x \<Rightarrow> (exn + pyval) \<times> 'x"

text \<open>
  The fields of \<^verbatim>\<open>OmniDimensionService\<close>. The client object itself is a parameter of the
  operations below; \<open>mock_mode\<close> says whether it is there.
\<close>

record service =
  api_key :: string
  mock_mode :: bool
  test_phone :: string
  agents_cache :: "(pyval \<times> pyval) list"
  call_history :: "pyval list"
  max_retries :: int
  retry_delay :: int

type_synonym 'x state = "service \<times> 'x world"

subsection \<open>Construction\<close>

definition default_api_key :: string where
  "default_api_key = ''Zxw_8n3uvfGKhHMHv9jZwu5z0FncESPNnMjZC0R14J0''"

text \<open>
  \<^verbatim>\<open>__init__\<close>. The argument is \<open>None\<close> when the caller passes no \<^verbatim>\<open>api_key\<close> (the
  parameter then takes its default), \<open>Some None\<close> for an explicit \<^verbatim>\<open>None\<close> and
  \<open>Some (Some k)\<close> for an explicit string. \<open>env_key\<close> is what
  \<^verbatim>\<open>os.getenv('OMNIDIMENSION_API_KEY')\<close> returns, and \<open>have_client\<close> says whether the
  client library was imported.
\<close>

definition init :: "string option option \<Rightarrow> string option \<Rightarrow> bool \<Rightarrow> exn + service" where
  "init api_key_arg env_key have_client =
     (let api_key_param = (case api_key_arg of None \<Rightarrow> Some default_api_key | Some a \<Rightarrow> a);
          key = (case api_key_param of
                   None \<Rightarrow> env_key
                 | Some k \<Rightarrow> if k \<noteq> [] then Some k else env_key)
      in case key of
           None \<Rightarrow> Inl (ValueError ''API key must be provided either as parameter or OMNIDIMENSION_API_KEY environment variable'')
         | Some k \<Rightarrow>
             if k = []
             then Inl (ValueError ''API key must be provided either as parameter or OMNIDIMENSION_API_KEY environment variable'')
             else Inr \<lparr>api_key = k, mock_mode = \<not> have_client, test_phone = ''+919548999129'',
                       agents_cache = [], call_history = [], max_retries = 3, retry_delay = 2\<rparr>)"

subsection \<open>Time\<close>

definition now_str :: "pylib \<Rightarrow> 'x world \<Rightarrow> string" where
  "now_str L w = fmt_datetime L (clock w)"

definition tomorrow_str :: "pylib \<Rightarrow> 'x world \<Rightarrow> string" where
  "tomorrow_str L w = fmt_long_date L (clock w + 86400)"

text \<open>\<^verbatim>\<open>time.sleep\<close> raises on a negative length.\<close>

definition sleep :: "int \<Rightarrow> 'x world \<Rightarrow> (exn + unit) \<times> 'x world" where
  "sleep secs w =
     (if secs < 0 then (Inl (ValueError ''sleep length must be non-negative''), w)
      else (Inr (), w\<lparr>clock := clock w + secs, events := events w @ [Slept secs]\<rparr>))"

text \<open>One call of a client operation.\<close>

definition invoke :: "('x \<Rightarrow> (exn + 'a) \<times> 'x) \<Rightarrow> 'x world \<Rightarrow> (exn + 'a) \<times> 'x world" where
  "invoke api_func w = (case api_func (provider w) of (r, x) \<Rightarrow> (r, w\<lparr>provider := x\<rparr>))"

subsection \<open>The retry wrapper\<close>

text \<open>
  \<^verbatim>\<open>_retry_api_call\<close>: the loop \<^verbatim>\<open>for attempt in range(self.max_retries)\<close> runs over the
  list of attempt indices, carrying \<^verbatim>\<open>last_exception\<close>. After the loop,
  \<^verbatim>\<open>raise last_exception\<close> with \<^verbatim>\<open>None\<close> is a \<^verbatim>\<open>TypeError\<close>. An exception of
  \<^verbatim>\<open>time.sleep\<close> is raised inside the handler and leaves the function.
\<close>

fun retry_loop ::
  "int \<Rightarrow> int \<Rightarrow> ('x \<Rightarrow> (exn + 'a) \<times> 'x) \<Rightarrow> nat list \<Rightarrow> exn option \<Rightarrow> 'x world
     \<Rightarrow> (exn + 'a) \<times> 'x world" where
  "retry_loop mr rd api_func [] last_exception w =
     (case last_exception of
        None \<Rightarrow> (Inl (TypeError ''exceptions must derive from BaseException''), w)
      | Some e \<Rightarrow> (Inl e, w))"
| "retry_loop mr rd api_func (attempt # rest) last_exception w =
     (case invoke api_func (w\<lparr>events := events w @ [Attempt]\<rparr>) of
        (Inr v, w1) \<Rightarrow> (Inr v, w1)
      | (Inl e, w1) \<Rightarrow>
          if int attempt < mr - 1
          then (case sleep (rd * 2 ^ attempt) w1 of
                  (Inl e', w2) \<Rightarrow> (Inl e', w2)
                | (Inr u, w2) \<Rightarrow> retry_loop mr rd api_func rest (Some e) w2)
          else retry_loop mr rd api_func rest (Some e) w1)"

definition retry_api_call ::
  "service \<Rightarrow> ('x \<Rightarrow> (exn + 'a) \<times> 'x) \<Rightarrow> 'x world \<Rightarrow> (exn + 'a) \<times> 'x world" where
  "retry_api_call s api_func w =
     retry_loop (max_retries s) (retry_delay s) api_func [0..<nat (max_retries s)] None w"

section \<open>Core API methods\<close>

subsection \<open>The agent cache\<close>

text \<open>
  \<^verbatim>\<open>self.agents_cache\<close> is a Python dictionary keyed by agent identifiers, which in real
  mode are whatever the provider returned under \<^verbatim>\<open>id\<close>. Lists and dictionaries are not
  hashable; equal numbers are one key (\<^verbatim>\<open>True\<close>, \<^verbatim>\<open>1\<close> and \<^verbatim>\<open>1.0\<close>), so the cache is
  kept under normalised keys.
\<close>

fun hashable :: "pyval \<Rightarrow> bool" where
  "hashable (VList xs) = False"
| "hashable (VDict d) = False"
| "hashable v = True"

fun key_norm :: "pyval \<Rightarrow> pyval" where
  "key_norm (VBool b) = VInt (if b then 1 else 0)"
| "key_norm (VFloat r) = (if r \<in> \<int> then VInt \<lfloor>r\<rfloor> else VFloat r)"
| "key_norm v = v"

definition unhashable :: "pyval \<Rightarrow> exn" where
  "unhashable v = TypeError (''unhashable type: '' @ [CHR 0x27] @ type_name v @ [CHR 0x27])"

definition cache_has :: "(pyval \<times> pyval) list \<Rightarrow> pyval \<Rightarrow> bool" where
  "cache_has cache k = (key_norm k \<in> set (map fst cache))"

subsection \<open>\<^verbatim>\<open>create_restaurant_agent\<close>\<close>

definition agent_config :: "pylib \<Rightarrow> pyval \<Rightarrow> pydict \<Rightarrow> pydict" where
  "agent_config L restaurant_name customer_info =
     (let customer_name = str_of L (dict_get_default customer_info ''name'' (VStr ''Customer''));
          customer_email = str_of L (dict_get_default customer_info ''email'' (VStr ''customer@example.com''));
          restaurant = str_of L restaurant_name
      in [(''name'', VStr (restaurant @ '' - Booking Assistant for '' @ customer_name)),
          (''welcome_message'',
             VStr (''Hello! This is '' @ customer_name @ '' calling to make a reservation at ''
                   @ restaurant @ ''. Could you please help me with booking a table?'')),
          (''context_breakdown'', VList [
             VDict [(''title'', VStr ''Reservation Request''),
                    (''body'', VStr (''I am '' @ customer_name
                       @ '' and I would like to make a reservation at '' @ restaurant
                       @ ''. I will provide the date, time, number of guests, and any special requests. Please be polite and professional when speaking with the restaurant staff.''))],
             VDict [(''title'', VStr ''Customer Information''),
                    (''body'', VStr (''Customer Name: '' @ customer_name @ '', Email: '' @ customer_email
                       @ ''. Please provide this information if the restaurant asks for contact details.''))],
             VDict [(''title'', VStr ''Conversation Flow''),
                    (''body'', VStr ''1. Greet the restaurant politely 2. Request to make a reservation 3. Provide all reservation details clearly 4. Confirm the booking details 5. Ask for confirmation number if available 6. Thank them and end the call politely'')]]),
          (''call_type'', VStr ''Outgoing''),
          (''voice_provider'', VStr ''eleven_labs''),
          (''voice_external_id'', VStr ''JBFqnCBsd6RMkjVDRZzb''),
          (''llm_service'', VStr ''gpt-4o-mini''),
          (''bot_type'', VStr ''prompt''),
          (''language'', VList [VStr ''en'']),
          (''is_filler_enable'', VBool False),
          (''filler_after_sec'', VFloat 0),
          (''llm_straming_enabled'', VBool False),
          (''enable_web_search'', VBool False)])"

text \<open>The mock branch: an identifier made from the clock.\<close>

definition create_agent_mock :: "pylib \<Rightarrow> pydict \<Rightarrow> 'x world \<Rightarrow> (exn + pyval \<times> pyval) \<times> 'x world" where
  "create_agent_mock L config w =
     (let agent_id = VStr (''mock_agent_'' @ str_of L (VInt (clock w)));
          agent_data = VDict [(''id'', agent_id), (''name'', dict_get config ''name'')]
      in (Inr (agent_id, agent_data), w))"

text \<open>The real branch: the \<^verbatim>\<open>try\<close> block, whose handler re-raises.\<close>

definition create_agent_real ::
  "pylib \<Rightarrow> 'x client \<Rightarrow> service \<Rightarrow> pydict \<Rightarrow> 'x world \<Rightarrow> (exn + pyval \<times> pyval) \<times> 'x world" where
  "create_agent_real L C s config w =
     (case retry_api_call s (agent_create C config) w of
        (Inl e, w1) \<Rightarrow> (Inl e, w1)
      | (Inr response, w1) \<Rightarrow>
          (let agent_data = handle_response response
           in case py_get agent_data ''id'' of
                Inl e \<Rightarrow> (Inl e, w1)
              | Inr agent_id \<Rightarrow>
                  if \<not> truthy agent_id
                  then (Inl (ValueError (''Agent creation failed - no ID returned. Response: ''
                                         @ str_of L agent_data)), w1)
                  else (Inr (agent_id, agent_data), w1)))"

definition create_restaurant_agent ::
  "pylib \<Rightarrow> 'x client \<Rightarrow> pyval \<Rightarrow> pydict \<Rightarrow> 'x state \<Rightarrow> (exn + pyval \<times> pyval) \<times> 'x state" where
  "create_restaurant_agent L C restaurant_name customer_info = (\<lambda>(s, w).
     if \<not> truthy restaurant_name then (Inl (ValueError ''Restaurant name is required''), s, w)
     else
       let config = agent_config L restaurant_name customer_info
       in case validate_agent_config config of
            Inl e \<Rightarrow> (Inl e, s, w)
          | Inr ok \<Rightarrow>
              (case (if mock_mode s then create_agent_mock L config w
                     else create_agent_real L C s config w) of
                 (Inl e, w1) \<Rightarrow> (Inl e, s, w1)
               | (Inr (agent_id, agent_data), w1) \<Rightarrow>
                   if hashable agent_id
                   then (Inr (agent_id, agent_data),
                         s\<lparr>agents_cache := dict_set (agents_cache s) (key_norm agent_id) agent_data\<rparr>,
                         w1)
                   else (Inl (unhashable agent_id), s, w1)))"

subsection \<open>\<^verbatim>\<open>make_call\<close>\<close>

text \<open>
  The check of the agent before a real call: whatever it raises is caught and the call
  goes on, so only the provider's state can change.
\<close>

definition verify_agent :: "'x client \<Rightarrow> pyval \<Rightarrow> 'x world \<Rightarrow> 'x world" where
  "verify_agent C agent_id w =
     (case invoke (agent_get_agent C agent_id) w of
        (Inl e, w1) \<Rightarrow> w1
      | (Inr agent_response, w1) \<Rightarrow>
          (case py_get (handle_response agent_response) ''voice_external_id'' of
             Inl e \<Rightarrow> w1
           | Inr voice \<Rightarrow> w1))"

definition dispatch_mock ::
  "pylib \<Rightarrow> pyval \<Rightarrow> pyval \<Rightarrow> 'x world \<Rightarrow> (exn + pyval \<times> pyval) \<times> 'x world" where
  "dispatch_mock L agent_id phone w =
     (let call_id = VStr (''mock_call_'' @ str_of L (VInt (clock w)));
          call_data = VDict [(''id'', call_id), (''status'', VStr ''mock_initiated''),
                             (''agent_id'', agent_id), (''phone_number'', phone)]
      in (Inr (call_id, call_data), w))"

text \<open>The real branch: the \<^verbatim>\<open>try\<close> block, whose handler prints and re-raises.\<close>

definition dispatch_real ::
  "pylib \<Rightarrow> 'x client \<Rightarrow> service \<Rightarrow> pyval \<Rightarrow> pyval \<Rightarrow> pyval \<Rightarrow> 'x world
     \<Rightarrow> (exn + pyval \<times> pyval) \<times> 'x world" where
  "dispatch_real L C s agent_id phone call_context w =
     (case retry_api_call s
             (call_dispatch_call C [(''agent_id'', agent_id), (''to_number'', phone),
                                    (''call_context'', py_or call_context (VDict []))]) w of
        (Inl e, w1) \<Rightarrow> (Inl e, w1)
      | (Inr response, w1) \<Rightarrow>
          (let call_data = handle_response response
           in case call_data of
                VDict d \<Rightarrow>
                  (let call_id = py_or (dict_get d ''id'')
                                   (py_or (dict_get d ''call_id'') (dict_get d ''uuid''))
                   in if \<not> truthy call_id
                      then (Inl (ValueError (''Call dispatch failed - no call ID returned. Response: ''
                                             @ str_of L call_data)), w1)
                      else (Inr (call_id, call_data), w1))
              | _ \<Rightarrow> (Inl (no_attribute call_data ''get''), w1)))"

definition make_call ::
  "pylib \<Rightarrow> 'x client \<Rightarrow> pyval \<Rightarrow> pyval \<Rightarrow> pyval \<Rightarrow> 'x state \<Rightarrow> (exn + pyval \<times> pyval) \<times> 'x state" where
  "make_call L C agent_id phone_number call_context = (\<lambda>(s, w).
     if \<not> truthy agent_id then (Inl (ValueError ''Agent ID is required''), s, w)
     else
       let phone = py_or phone_number (VStr (test_phone s))
       in case validate_phone_number phone of
            Inl e \<Rightarrow> (Inl e, s, w)
          | Inr valid \<Rightarrow>
             (if \<not> valid then (Inl (ValueError (''Invalid phone number: '' @ str_of L phone)), s, w)
              else
                let call_context = py_or call_context (VDict []);
                    w0 = (if \<not> mock_mode s then verify_agent C agent_id w else w)
                in (case (if mock_mode s then dispatch_mock L agent_id phone w0
                          else dispatch_real L C s agent_id phone call_context w0) of
                      (Inl e, w1) \<Rightarrow> (Inl e, s, w1)
                    | (Inr (call_id, call_data), w1) \<Rightarrow>
                        (case call_data of
                           VDict d \<Rightarrow>
                             (let call_record = VDict (dict_set d ''timestamp'' (VStr (now_str L w1)))
                              in (Inr (call_id, call_data),
                                  s\<lparr>call_history := call_history s @ [call_record]\<rparr>, w1))
                         | _ \<Rightarrow> (Inl (TypeError ([CHR 0x27] @ type_name call_data @ [CHR 0x27]
                                                   @ '' object is not a mapping'')), s, w1)))))"

subsection \<open>Status and log readers\<close>

definition get_call_status ::
  "'x client \<Rightarrow> pyval \<Rightarrow> 'x state \<Rightarrow> (exn + pyval) \<times> 'x state" where
  "get_call_status C call_id = (\<lambda>(s, w).
     if \<not> truthy call_id then (Inl (ValueError ''Call ID is required''), s, w)
     else if mock_mode s
     then (Inr (VDict [(''id'', call_id), (''status'', VStr ''mock_completed''),
                       (''summary'', VStr ''Mock reservation confirmed successfully.''),
                       (''duration'', VInt 45),
                       (''transcript'', VStr ''Mock conversation transcript'')]), s, w)
     else (case retry_api_call s (call_get_call_log C call_id) w of
             (Inl e, w1) \<Rightarrow> (Inl e, s, w1)
           | (Inr response, w1) \<Rightarrow> (Inr (handle_response response), s, w1)))"

text \<open>
  The slice \<^verbatim>\<open>xs[start:]\<close>: a negative start counts from the end and is clipped at the
  front of the list.
\<close>

definition slice_from :: "int \<Rightarrow> 'a list \<Rightarrow> 'a list" where
  "slice_from start xs =
     (if start < 0 then drop (nat (int (length xs) + start)) xs else drop (nat start) xs)"

definition get_call_logs ::
  "'x client \<Rightarrow> pyval \<Rightarrow> int \<Rightarrow> int \<Rightarrow> 'x state \<Rightarrow> (exn + pyval) \<times> 'x state" where
  "get_call_logs C agent_id page page_size = (\<lambda>(s, w).
     if mock_mode s
     then (Inr (VDict [(''data'', VList (slice_from (- page_size) (call_history s))),
                       (''pagination'',
                          VDict [(''page'', VInt page), (''page_size'', VInt page_size),
                                 (''total'', VInt (int (length (call_history s))))])]), s, w)
     else (case retry_api_call s
                  (call_get_call_logs C [(''agent_id'', agent_id), (''page'', VInt page),
                                         (''page_size'', VInt page_size)]) w of
             (Inl e, w1) \<Rightarrow> (Inl e, s, w1)
           | (Inr response, w1) \<Rightarrow> (Inr (handle_response response), s, w1)))"

definition get_agent_details ::
  "'x client \<Rightarrow> pyval \<Rightarrow> 'x state \<Rightarrow> (exn + pyval) \<times> 'x state" where
  "get_agent_details C agent_id = (\<lambda>(s, w).
     if mock_mode s
     then (if hashable agent_id
           then (Inr (case map_of (agents_cache s) (key_norm agent_id) of
                        Some agent_data \<Rightarrow> agent_data
                      | None \<Rightarrow> VDict [(''id'', agent_id), (''status'', VStr ''mock'')]), s, w)
           else (Inl (unhashable agent_id), s, w))
     else (case invoke (agent_get_agent C agent_id) w of
             (Inl e, w1) \<Rightarrow> (Inl e, s, w1)
           | (Inr response, w1) \<Rightarrow> (Inr (handle_response response), s, w1)))"

definition test_api_connection :: "'x client \<Rightarrow> 'x state \<Rightarrow> (exn + pyval) \<times> 'x state" where
  "test_api_connection C = (\<lambda>(s, w).
     if mock_mode s
     then (Inr (VDict [(''status'', VStr ''mock_mode''), (''api_accessible'', VBool False)]), s, w)
     else (case retry_api_call s (call_get_call_logs C [(''page_size'', VInt 1)]) w of
             (Inl e, w1) \<Rightarrow>
               (Inr (VDict [(''status'', VStr ''error''), (''api_accessible'', VBool False),
                            (''error'', VStr (exn_str e))]), s, w1)
           | (Inr response, w1) \<Rightarrow>
               (Inr (VDict [(''status'', VStr ''connected''), (''api_accessible'', VBool True),
                            (''response'', response)]), s, w1)))"

subsection \<open>\<^verbatim>\<open>make_restaurant_reservation\<close>\<close>

text \<open>The dictionary that the handler of the \<^verbatim>\<open>try\<close> block returns.\<close>

definition reservation_failure ::
  "pylib \<Rightarrow> pydict \<Rightarrow> pydict \<Rightarrow> pydict \<Rightarrow> exn \<Rightarrow> 'x world \<Rightarrow> pyval" where
  "reservation_failure L restaurant_info reservation_details customer_info e w =
     VDict [(''success'', VBool False), (''error'', VStr (exn_str e)),
            (''timestamp'', VStr (now_str L w)),
            (''restaurant'', dict_get restaurant_info ''name''),
            (''customer'', dict_get customer_info ''name''),
            (''reservation'', VDict reservation_details)]"

text \<open>
  The \<^verbatim>\<open>try\<close> block: every exception of its three steps becomes a failure dictionary.
  The validation before it has made sure that \<^verbatim>\<open>restaurant_info['name']\<close> is there.
\<close>

definition reservation_steps ::
  "pylib \<Rightarrow> 'x client \<Rightarrow> pydict \<Rightarrow> pydict \<Rightarrow> pydict \<Rightarrow> pyval \<Rightarrow> 'x state
     \<Rightarrow> (exn + pyval) \<times> 'x state" where
  "reservation_steps L C restaurant_info reservation_details customer_info restaurant_phone = (\<lambda>(s, w).
     case create_restaurant_agent L C (dict_get restaurant_info ''name'') customer_info (s, w) of
       (Inl e, s1, w1) \<Rightarrow>
         (Inr (reservation_failure L restaurant_info reservation_details customer_info e w1), s1, w1)
     | (Inr (agent_id, agent_data), s1, w1) \<Rightarrow>
         (let call_context = VDict [
                (''reservation_date'',
                   dict_get_default reservation_details ''date'' (VStr (tomorrow_str L w1))),
                (''reservation_time'', dict_get_default reservation_details ''time'' (VStr ''7:00 PM'')),
                (''number_of_guests'',
                   VStr (str_of L (dict_get_default reservation_details ''party_size'' (VInt 2)))),
                (''special_requests'', dict_get_default reservation_details ''special_requests'' (VStr [])),
                (''customer_name'', dict_get customer_info ''name''),
                (''customer_phone'', dict_get_default customer_info ''phone'' (VStr [])),
                (''customer_email'', dict_get_default customer_info ''email'' (VStr [])),
                (''restaurant_name'', dict_get restaurant_info ''name''),
                (''booking_type'', VStr ''reservation''),
                (''urgency'', VStr ''normal'')];
              target_phone = py_or restaurant_phone (VStr (test_phone s1))
          in (case make_call L C agent_id target_phone call_context (s1, w1) of
                (Inl e, s2, w2) \<Rightarrow>
                  (Inr (reservation_failure L restaurant_info reservation_details customer_info e w2),
                   s2, w2)
              | (Inr (call_id, call_data), s2, w2) \<Rightarrow>
                  (case get_call_status C call_id (s2, w2) of
                     (Inl e, s3, w3) \<Rightarrow>
                       (Inr (reservation_failure L restaurant_info reservation_details customer_info e w3),
                        s3, w3)
                   | (Inr call_status, s3, w3) \<Rightarrow>
                       (Inr (VDict [(''success'', VBool True), (''agent_id'', agent_id),
                                    (''call_id'', call_id), (''agent_data'', agent_data),
                                    (''call_data'', call_data), (''call_status'', call_status),
                                    (''timestamp'', VStr (now_str L w3)),
                                    (''restaurant'', dict_get restaurant_info ''name''),
                                    (''customer'', dict_get customer_info ''name''),
                                    (''reservation'', VDict reservation_details),
                                    (''target_phone'', target_phone)]), s3, w3)))))"

definition make_restaurant_reservation ::
  "pylib \<Rightarrow> 'x client \<Rightarrow> pydict \<Rightarrow> pydict \<Rightarrow> pydict \<Rightarrow> 'x state \<Rightarrow> (exn + pyval) \<times> 'x state" where
  "make_restaurant_reservation L C restaurant_info reservation_details customer_info = (\<lambda>(s, w).
     if restaurant_info = [] \<or> \<not> truthy (dict_get restaurant_info ''name'')
     then (Inl (ValueError ''Restaurant info with name is required''), s, w)
     else if customer_info = [] \<or> \<not> truthy (dict_get customer_info ''name'')
     then (Inl (ValueError ''Customer info with name is required''), s, w)
     else if reservation_details = []
     then (Inl (ValueError ''Reservation details are required''), s, w)
     else
       let restaurant_phone = dict_get restaurant_info ''phone''
       in if truthy restaurant_phone
          then (case validate_phone_number restaurant_phone of
                  Inl e \<Rightarrow> (Inl e, s, w)
                | Inr valid \<Rightarrow>
                    (if \<not> valid
                     then (Inl (ValueError (''Invalid restaurant phone number: ''
                                            @ str_of L restaurant_phone)), s, w)
                     else reservation_steps L C restaurant_info reservation_details customer_info
                            restaurant_phone (s, w)))
          else reservation_steps L C restaurant_info reservation_details customer_info
                 restaurant_phone (s, w))"

section \<open>Sequences of operations\<close>

text \<open>
  What a caller can do with a service object, one public method at a time; \<open>Elapse n\<close>
  lets \<open>n\<close> seconds pass between two calls. \<open>perform\<close> gives the state after the
  operation, whether it returned or raised.
\<close>

datatype request =
    CreateRestaurantAgent pyval pydict
  | MakeCall pyval pyval pyval
  | GetCallStatus pyval
  | GetCallLogs pyval int int
  | MakeRestaurantReservation pydict pydict pydict
  | GetAgentDetails pyval
  | TestApiConnection
  | Elapse nat

fun perform :: "pylib \<Rightarrow> 'x client \<Rightarrow> request \<Rightarrow> 'x state \<Rightarrow> 'x state" where
  "perform L C (CreateRestaurantAgent restaurant_name customer_info) st =
     snd (create_restaurant_agent L C restaurant_name customer_info st)"
| "perform L C (MakeCall agent_id phone_number call_context) st =
     snd (make_call L C agent_id phone_number call_context st)"
| "perform L C (GetCallStatus call_id) st = snd (get_call_status C call_id st)"
| "perform L C (GetCallLogs agent_id page page_size) st =
     snd (get_call_logs C agent_id page page_size st)"
| "perform L C (MakeRestaurantReservation restaurant_info reservation_details customer_info) st =
     snd (make_restaurant_reservation L C restaurant_info reservation_details customer_info st)"
| "perform L C (GetAgentDetails agent_id) st = snd (get_agent_details C agent_id st)"
| "perform L C TestApiConnection st = snd (test_api_connection C st)"
| "perform L C (Elapse n) st = (fst st, (snd st)\<lparr>clock := clock (snd st) + int n\<rparr>)"

fun run :: "pylib \<Rightarrow> 'x client \<Rightarrow> request list \<Rightarrow> 'x state \<Rightarrow> 'x state" where
  "run L C [] st = st"
| "run L C (r # rs) st = run L C rs (perform L C r st)"

section \<open>Notions used in the statements\<close>

text \<open>
  Two readings of "digit character". The decimal digits are the ten characters \<^verbatim>\<open>0\<close> to
  \<^verbatim>\<open>9\<close>. The other Unicode digits are the characters of \<open>other_digit_ranges\<close>, such as
  the superscript two (178) or the Arabic-Indic digits (1632 to 1641).
\<close>

definition decimal_digit :: "nat \<Rightarrow> bool" where
  "decimal_digit c = (48 \<le> c \<and> c \<le> 57)"

definition other_unicode_digit :: "nat \<Rightarrow> bool" where
  "other_unicode_digit c = in_ranges c other_digit_ranges"

definition decimal_digit_count :: "nat list \<Rightarrow> nat" where
  "decimal_digit_count phone = length (filter decimal_digit phone)"

definition unicode_digit_count :: "nat list \<Rightarrow> nat" where
  "unicode_digit_count phone =
     length (filter decimal_digit phone) + length (filter other_unicode_digit phone)"

fun is_dict :: "pyval \<Rightarrow> bool" where
  "is_dict (VDict d) = True"
| "is_dict v = False"

text \<open>
  The provider's state after \<open>n\<close> invocations of an operation, and the exception an
  invocation raises in a given state.
\<close>

fun provider_after :: "('x \<Rightarrow> (exn + 'a) \<times> 'x) \<Rightarrow> nat \<Rightarrow> 'x \<Rightarrow> 'x" where
  "provider_after api_func 0 x = x"
| "provider_after api_func (Suc n) x = provider_after api_func n (snd (api_func x))"

definition failure_at :: "('x \<Rightarrow> (exn + 'a) \<times> 'x) \<Rightarrow> 'x \<Rightarrow> exn" where
  "failure_at api_func x = projl (fst (api_func x))"

text \<open>
  A reading of a dispatch response in which a key counts as soon as it is present,
  whatever its value: the first of \<^verbatim>\<open>id\<close>, \<^verbatim>\<open>call_id\<close>, \<^verbatim>\<open>uuid\<close> that the dictionary
  holds. It is compared below with what \<open>make_call\<close> extracts.
\<close>

definition first_present_call_id :: "pydict \<Rightarrow> pyval option" where
  "first_present_call_id d =
     (if dict_has d ''id'' then Some (dict_get d ''id'')
      else if dict_has d ''call_id'' then Some (dict_get d ''call_id'')
      else if dict_has d ''uuid'' then Some (dict_get d ''uuid'')
      else None)"

section \<open>A sample library, client and service\<close>

text \<open>
  The theorems below hold for every library, client and state. Their instances at
  concrete inputs use the following ones: \<open>sample_str\<close> is \<^verbatim>\<open>str()\<close> on \<^verbatim>\<open>None\<close>,
  booleans, integers and strings, and a placeholder on the other values; the two time
  formats are placeholders that show the seconds.
\<close>

fun digits :: "nat \<Rightarrow> string" where
  "digits n = (if n < 10 then [''0123456789'' ! n]
               else digits (n div 10) @ [''0123456789'' ! (n mod 10)])"

declare digits.simps [simp del]

definition show_int :: "int \<Rightarrow> string" where
  "show_int i = (if i < 0 then CHR ''-'' # digits (nat (- i)) else digits (nat i))"

fun sample_str :: "pyval \<Rightarrow> string" where
  "sample_str VNone = ''None''"
| "sample_str (VBool b) = (if b then ''True'' else ''False'')"
| "sample_str (VInt i) = show_int i"
| "sample_str (VFloat r) = ''<float>''"
| "sample_str (VStr s) = s"
| "sample_str (VList xs) = ''<list>''"
| "sample_str (VDict d) = ''<dict>''"

definition sample_lib :: pylib where
  "sample_lib = \<lparr>str_of = sample_str,
                  fmt_datetime = (\<lambda>t. ''utc:'' @ show_int t),
                  fmt_long_date = (\<lambda>t. ''day:'' @ show_int t)\<rparr>"

text \<open>
  A provider whose state counts the requests it has served. It wraps the created agent
  under \<^verbatim>\<open>json\<close> and answers a dispatch with a null \<^verbatim>\<open>id\<close> and the identifier under
  \<^verbatim>\<open>call_id\<close>.
\<close>

definition sample_client :: "nat client" where
  "sample_client = \<lparr>
     agent_create = (\<lambda>config x.
        (Inr (VDict [(''json'', VDict [(''id'', VStr ''agent-1''), (''name'', dict_get config ''name'')])]),
         Suc x)),
     agent_get_agent = (\<lambda>agent_id x.
        (Inr (VDict [(''id'', agent_id), (''voice_external_id'', VStr ''JBFqnCBsd6RMkjVDRZzb'')]), Suc x)),
     call_dispatch_call = (\<lambda>kwargs x.
        (Inr (VDict [(''id'', VNone), (''call_id'', VStr ''call-1''), (''status'', VStr ''queued'')]),
         Suc x)),
     call_get_call_log = (\<lambda>call_id x.
        (Inr (VDict [(''id'', call_id), (''status'', VStr ''completed'')]), Suc x)),
     call_get_call_logs = (\<lambda>kwargs x. (Inr (VDict [(''data'', VList [])]), Suc x))\<rparr>"

text \<open>An operation that fails on every invocation, each time with another message.\<close>

definition always_refused :: "nat \<Rightarrow> (exn + pyval) \<times> nat" where
  "always_refused x = (Inl (OtherError ''ConnectionError'' (''refused #'' @ digits x)), Suc x)"

definition sample_service :: "bool \<Rightarrow> service" where
  "sample_service mock =
     \<lparr>api_key = ''secret'', mock_mode = mock, test_phone = ''+919548999129'',
      agents_cache = [], call_history = [], max_retries = 3, retry_delay = 2\<rparr>"

definition sample_world :: "nat world" where
  "sample_world = \<lparr>clock = 1750000000, events = [], provider = 0\<rparr>"

text \<open>A mock service that has already placed two calls, and the agent of the sample run.\<close>

definition busy_service :: service where
  "busy_service =
     (sample_service True)\<lparr>call_history :=
        [VDict [(''id'', VStr ''mock_call_1''), (''status'', VStr ''mock_initiated'')],
         VDict [(''id'', VStr ''mock_call_2''), (''status'', VStr ''mock_initiated'')]]\<rparr>"

definition sample_agent_id :: pyval where
  "sample_agent_id = VStr ''mock_agent_1750000000''"

definition sample_agent_data :: pyval where
  "sample_agent_data =
     VDict [(''id'', VStr ''mock_agent_1750000000''),
            (''name'', VStr ''Spice Garden - Booking Assistant for Ayush Kumar'')]"

definition sample_answer :: pydict where
  "sample_answer = [(''id'', VNone), (''call_id'', VStr ''call-1''), (''status'', VStr ''queued'')]"

section \<open>Lemmas on dictionaries\<close>

lemma dict_get_Nil: "dict_get [] k = VNone"
  by (simp add: dict_get_def)

lemma dict_get_Cons: "dict_get ((k, v) # d) k' = (if k' = k then v else dict_get d k')"
  by (simp add: dict_get_def)

lemma dict_has_Nil: "dict_has [] k = False"
  by (simp add: dict_has_def)

lemma dict_has_Cons: "dict_has ((k, v) # d) k' = (k' = k \<or> dict_has d k')"
  by (simp add: dict_has_def)

lemmas dict_eval = dict_get_Nil dict_get_Cons dict_has_Nil dict_has_Cons

section \<open>Phone validation\<close>

lemma isdigit_split: "isdigit c = (decimal_digit c \<or> other_unicode_digit c)"
  by (simp add: isdigit_def in_ranges_def decimal_digit_def other_unicode_digit_def)

lemma other_unicode_digit_above: "other_unicode_digit c \<Longrightarrow> 178 \<le> c"
  by (auto simp: other_unicode_digit_def in_ranges_def other_digit_ranges_def)

lemma other_unicode_digit_below: "c < 178 \<Longrightarrow> \<not> other_unicode_digit c"
  using other_unicode_digit_above [of c] by auto

lemma isdigit_ascii: "c < 178 \<Longrightarrow> isdigit c = (48 \<le> c \<and> c \<le> 57)"
  using other_unicode_digit_above [of c] by (auto simp: isdigit_split decimal_digit_def)

lemma isdigit_plus: "\<not> isdigit 43"
  by (simp add: isdigit_ascii)

lemma filter_isdigit_remove_plus: "filter isdigit (remove_plus s) = filter isdigit s"
  unfolding remove_plus_def filter_filter
  by (rule filter_cong) (auto simp: isdigit_plus)

lemma isdigit_count: "length (filter isdigit phone) = unicode_digit_count phone"
proof (induction phone)
  case Nil
  show ?case by (simp add: unicode_digit_count_def)
next
  case (Cons c phone)
  have "\<not> (decimal_digit c \<and> other_unicode_digit c)"
    using other_unicode_digit_above [of c] by (auto simp: decimal_digit_def)
  with Cons show ?case
    by (auto simp: unicode_digit_count_def isdigit_split)
qed

lemma validate_phone_str_count:
  "validate_phone_str phone = (10 \<le> unicode_digit_count phone \<and> unicode_digit_count phone \<le> 15)"
proof (cases "phone = []")
  case True
  then show ?thesis
    by (simp add: validate_phone_str_def unicode_digit_count_def)
next
  case False
  then show ?thesis
    by (simp add: validate_phone_str_def Let_def filter_isdigit_remove_plus isdigit_count)
qed

lemma arabic_indic_digit: "1632 \<le> c \<Longrightarrow> c \<le> 1641 \<Longrightarrow> other_unicode_digit c"
  by (simp add: other_unicode_digit_def in_ranges_def other_digit_ranges_def)

lemma validate_phone_number_VStr:
  "validate_phone_number (VStr s) = Inr (validate_phone_str (code_points s))"
  by (simp add: validate_phone_number_def)

lemma sample_phone_valid: "validate_phone_number (VStr ''+919876543210'') = Inr True"
  by (simp add: validate_phone_number_VStr validate_phone_str_def code_points_def remove_plus_def
        isdigit_ascii)

lemma test_phone_valid: "validate_phone_number (VStr ''+919548999129'') = Inr True"
  by (simp add: validate_phone_number_VStr validate_phone_str_def code_points_def remove_plus_def
        isdigit_ascii)

lemma short_phone_invalid: "validate_phone_number (VStr ''12345'') = Inr False"
  by (simp add: validate_phone_number_VStr validate_phone_str_def code_points_def remove_plus_def
        isdigit_ascii)

text \<open>
  Claim C3, as amended. For every string, \<open>validate_phone_number\<close> returns true exactly
  when the number of its characters that \<^verbatim>\<open>str.isdigit\<close> accepts is between 10 and 15:
  the decimal digits \<^verbatim>\<open>0\<close> to \<^verbatim>\<open>9\<close> and also the other Unicode digit characters; plus
  signs and all other characters do not count. In particular \<^verbatim>\<open>+919876543210\<close> is valid,
  and \<^verbatim>\<open>12345\<close> and the empty string are not; the ten Arabic-Indic digits are valid.
\<close>

theorem validate_phone_unicode_digit_count:
  "validate_phone_str phone =
     (10 \<le> unicode_digit_count phone \<and> unicode_digit_count phone \<le> 15)
   \<and> validate_phone_number (VStr s) = Inr (validate_phone_str (code_points s))
   \<and> validate_phone_number (VStr ''+919876543210'') = Inr True
   \<and> validate_phone_number (VStr ''12345'') = Inr False
   \<and> validate_phone_number (VStr []) = Inr False
   \<and> validate_phone_str [1632, 1633, 1634, 1635, 1636, 1637, 1638, 1639, 1640, 1641] = True"
proof -
  have empty: "validate_phone_number (VStr []) = Inr False"
    by (simp add: validate_phone_number_VStr validate_phone_str_def code_points_def)
  have arabic_indic: "validate_phone_str [1632, 1633, 1634, 1635, 1636, 1637, 1638, 1639, 1640, 1641] = True"
    unfolding validate_phone_str_count
    by (simp add: unicode_digit_count_def decimal_digit_def arabic_indic_digit)
  from validate_phone_str_count validate_phone_number_VStr sample_phone_valid short_phone_invalid
       empty arabic_indic
  show ?thesis
    by (intro conjI)
qed

text \<open>
  The claim as it was stated, with the digit characters read as the decimal digits, fails:
  the string \<^verbatim>\<open>123456789\<close> followed by a superscript two has nine decimal digits and is
  accepted, because \<^verbatim>\<open>str.isdigit\<close> counts the superscript.
\<close>

theorem validate_phone_superscript_counterexample:
  "validate_phone_number (VStr (''123456789'' @ [CHR 0xB2])) = Inr True
   \<and> decimal_digit_count (code_points (''123456789'' @ [CHR 0xB2])) = 9"
proof -
  have points: "code_points (''123456789'' @ [CHR 0xB2]) = [49, 50, 51, 52, 53, 54, 55, 56, 57, 178]"
    by (simp add: code_points_def)
  have superscript: "other_unicode_digit 178"
    by (simp add: other_unicode_digit_def in_ranges_def other_digit_ranges_def)
  have count: "unicode_digit_count [49, 50, 51, 52, 53, 54, 55, 56, 57, 178] = 10"
    by (simp add: unicode_digit_count_def decimal_digit_def superscript other_unicode_digit_below)
  have accepted: "validate_phone_number (VStr (''123456789'' @ [CHR 0xB2])) = Inr True"
    unfolding validate_phone_number_VStr points validate_phone_str_count count by simp
  have decimal: "decimal_digit_count (code_points (''123456789'' @ [CHR 0xB2])) = 9"
    unfolding points by (simp add: decimal_digit_count_def decimal_digit_def)
  from accepted decimal show ?thesis
    by (rule conjI)
qed

section \<open>Response normalisation\<close>

text \<open>
  Claim C8. On a dictionary without the key \<^verbatim>\<open>json\<close>, \<open>handle_response\<close> returns the
  dictionary unchanged and is idempotent; a value that is not a dictionary is passed
  through as it is.
\<close>

theorem handle_response_flat_idempotent:
  "(\<not> dict_has d ''json'' \<longrightarrow>
      handle_response (VDict d) = VDict d
      \<and> handle_response (handle_response (VDict d)) = handle_response (VDict d))
   \<and> (\<not> is_dict v \<longrightarrow> handle_response v = v)"
  by (cases v) (simp_all add: handle_response_def)

theorem handle_response_flat_idempotent_witness:
  "\<not> dict_has [(''id'', VStr ''call-7''), (''status'', VStr ''queued'')] ''json''
   \<and> handle_response (VDict [(''id'', VStr ''call-7''), (''status'', VStr ''queued'')])
       = VDict [(''id'', VStr ''call-7''), (''status'', VStr ''queued'')]
   \<and> handle_response (handle_response (VDict [(''id'', VStr ''call-7''), (''status'', VStr ''queued'')]))
       = handle_response (VDict [(''id'', VStr ''call-7''), (''status'', VStr ''queued'')])
   \<and> \<not> is_dict (VList [VInt 1])
   \<and> handle_response (VList [VInt 1]) = VList [VInt 1]"
proof -
  have flat: "\<not> dict_has [(''id'', VStr ''call-7''), (''status'', VStr ''queued'')] ''json''"
    by (simp add: dict_eval)
  have other: "\<not> is_dict (VList [VInt 1])"
    by simp
  from handle_response_flat_idempotent
          [of "[(''id'', VStr ''call-7''), (''status'', VStr ''queued'')]" "VList [VInt 1]"]
       flat other
  show ?thesis by blast
qed

section \<open>The agent configuration\<close>

lemma agent_config_name:
  "dict_get (agent_config L restaurant_name customer_info) ''name'' =
     VStr (str_of L restaurant_name @ '' - Booking Assistant for ''
           @ str_of L (dict_get_default customer_info ''name'' (VStr ''Customer'')))"
  unfolding agent_config_def Let_def dict_get_Cons by simp

lemma agent_config_fields:
  "truthy (dict_get (agent_config L restaurant_name customer_info) ''name'')"
  "truthy (dict_get (agent_config L restaurant_name customer_info) ''welcome_message'')"
  "truthy (dict_get (agent_config L restaurant_name customer_info) ''call_type'')"
  unfolding agent_config_def Let_def dict_get_Cons by simp_all

lemma agent_config_valid:
  "validate_agent_config (agent_config L restaurant_name customer_info) = Inr True"
  unfolding validate_agent_config_def check_required.simps
  by (simp add: agent_config_fields)


section \<open>Construction\<close>

text \<open>
  Claim C2. A service constructed without an \<^verbatim>\<open>api_key\<close> argument, while the
  environment variable is unset, is constructed all the same: the parameter's default is
  a key written in the source, so no \<^verbatim>\<open>ValueError\<close> is raised. The check itself
  works when it is reached: an explicit \<^verbatim>\<open>None\<close> with the variable unset raises.
\<close>

theorem init_without_key_succeeds:
  "init None None have_client =
     Inr \<lparr>api_key = default_api_key, mock_mode = \<not> have_client, test_phone = ''+919548999129'',
          agents_cache = [], call_history = [], max_retries = 3, retry_delay = 2\<rparr>
   \<and> init (Some None) None have_client =
     Inl (ValueError ''API key must be provided either as parameter or OMNIDIMENSION_API_KEY environment variable'')"
  by (simp add: init_def default_api_key_def)

section \<open>The retry wrapper on an operation that always fails\<close>

lemma retry_loop_failing:
  assumes fails: "\<forall>x. isl (fst (f x))" and rd: "0 \<le> rd"
  shows "fst (retry_loop mr rd f as last_exception w) =
           Inl (case as of
                  [] \<Rightarrow> (case last_exception of
                           None \<Rightarrow> TypeError ''exceptions must derive from BaseException''
                         | Some e \<Rightarrow> e)
                | _ \<Rightarrow> failure_at f (provider_after f (length as - 1) (provider w)))
         \<and> provider (snd (retry_loop mr rd f as last_exception w)) =
             provider_after f (length as) (provider w)
         \<and> events (snd (retry_loop mr rd f as last_exception w)) =
             events w @ concat (map (\<lambda>a. Attempt # (if int a < mr - 1 then [Slept (rd * 2 ^ a)] else [])) as)"
proof (induction as arbitrary: last_exception w)
  case Nil
  show ?case by (simp split: option.split)
next
  case (Cons a as)
  from fails obtain e x1 where fx: "f (provider w) = (Inl e, x1)"
    by (metis isl_def prod.collapse)
  have e: "e = failure_at f (provider w)" and x1: "x1 = snd (f (provider w))"
    using fx by (simp_all add: failure_at_def)
  from rd have nonneg: "\<not> rd * 2 ^ a < 0"
    by (simp add: not_less)
  show ?case
  proof (cases "int a < mr - 1")
    case True
    let ?w2 = "w\<lparr>events := events w @ [Attempt], provider := x1,
                  clock := clock w + rd * 2 ^ a,
                  events := events w @ [Attempt] @ [Slept (rd * 2 ^ a)]\<rparr>"
    have step: "retry_loop mr rd f (a # as) last_exception w = retry_loop mr rd f as (Some e) ?w2"
      using True fx nonneg by (simp add: invoke_def sleep_def)
    show ?thesis
      unfolding step using Cons.IH [of "Some e" ?w2] True
      by (cases as) (simp_all add: e x1)
  next
    case False
    let ?w1 = "w\<lparr>events := events w @ [Attempt], provider := x1\<rparr>"
    have step: "retry_loop mr rd f (a # as) last_exception w = retry_loop mr rd f as (Some e) ?w1"
      using False fx by (simp add: invoke_def)
    show ?thesis
      unfolding step using Cons.IH [of "Some e" ?w1] False
      by (cases as) (simp_all add: e x1)
  qed
qed

lemma attempts_before_last:
  assumes "\<forall>a \<in> set xs. int a < mr - 1"
  shows "concat (map (\<lambda>a. Attempt # (if int a < mr - 1 then [Slept (rd * 2 ^ a)] else [])) xs) =
         concat (map (\<lambda>i. [Attempt, Slept (rd * 2 ^ i)]) xs)"
  using assms by (induction xs) auto

lemma attempts_events:
  assumes "0 < mr"
  shows "concat (map (\<lambda>a. Attempt # (if int a < mr - 1 then [Slept (rd * 2 ^ a)] else [])) [0..<nat mr]) =
         concat (map (\<lambda>i. [Attempt, Slept (rd * 2 ^ i)]) [0..<nat mr - 1]) @ [Attempt]"
proof -
  let ?g = "\<lambda>a. Attempt # (if int a < mr - 1 then [Slept (rd * 2 ^ a)] else [])"
  let ?h = "\<lambda>i. [Attempt, Slept (rd * 2 ^ i)]"
  let ?n = "nat mr - 1"
  from assms have split: "[0..<nat mr] = [0..<?n] @ [?n]"
    by (metis Suc_diff_1 upt_Suc_append zero_le zero_less_nat_eq)
  have before: "\<forall>a \<in> set [0..<?n]. int a < mr - 1"
    by auto
  have final: "?g ?n = [Attempt]"
    using assms by simp
  have "concat (map ?g [0..<nat mr]) = concat (map ?g [0..<?n]) @ ?g ?n"
    by (subst split) simp
  also have "\<dots> = concat (map ?h [0..<?n]) @ [Attempt]"
    by (simp only: attempts_before_last [OF before] final)
  finally show ?thesis .
qed

text \<open>
  Claim C4. When the operation fails on every invocation, \<open>retry_api_call\<close> raises the
  exception of the last invocation itself, after exactly \<open>max_retries\<close> invocations; it
  sleeps \<open>retry_delay * 2 ^ i\<close> after the failed attempt \<open>i\<close> for each attempt but the
  last, and the last event is an attempt, not a sleep. (\<open>max_retries\<close> is positive and
  \<open>retry_delay\<close> is not negative: the constructor sets them to 3 and 2.)
\<close>

theorem retry_api_call_always_failing:
  assumes "\<forall>x. isl (fst (api_func x))"
      and "0 < max_retries s"
      and "0 \<le> retry_delay s"
  shows "fst (retry_api_call s api_func w) =
           Inl (failure_at api_func (provider_after api_func (nat (max_retries s) - 1) (provider w)))
         \<and> provider (snd (retry_api_call s api_func w)) =
             provider_after api_func (nat (max_retries s)) (provider w)
         \<and> events (snd (retry_api_call s api_func w)) =
             events w @ concat (map (\<lambda>i. [Attempt, Slept (retry_delay s * 2 ^ i)])
                                    [0..<nat (max_retries s) - 1]) @ [Attempt]"
proof -
  let ?as = "[0..<nat (max_retries s)]"
  from assms(2) have nonempty: "?as \<noteq> []"
    by simp
  have last_one: "(case ?as of [] \<Rightarrow> a | _ \<Rightarrow> b) = b" for a b :: exn
    using nonempty by (cases ?as) simp_all
  have len: "length ?as = nat (max_retries s)"
    by simp
  from retry_loop_failing [OF assms(1) assms(3), of "max_retries s" ?as None w]
  show ?thesis
    unfolding retry_api_call_def attempts_events [OF assms(2)] last_one len .
qed

theorem retry_api_call_always_failing_witness:
  "(\<forall>x. isl (fst (always_refused x)))
   \<and> 0 < max_retries (sample_service False)
   \<and> 0 \<le> retry_delay (sample_service False)
   \<and> fst (retry_api_call (sample_service False) always_refused sample_world) =
       Inl (OtherError ''ConnectionError'' ''refused #2'')
   \<and> provider (snd (retry_api_call (sample_service False) always_refused sample_world)) = 3
   \<and> events (snd (retry_api_call (sample_service False) always_refused sample_world)) =
       [Attempt, Slept 2, Attempt, Slept 4, Attempt]"
proof -
  have fails: "\<forall>x. isl (fst (always_refused x))"
    by (simp add: always_refused_def)
  have tries: "0 < max_retries (sample_service False)" "nat (max_retries (sample_service False)) = 3"
    and delay: "0 \<le> retry_delay (sample_service False)" "retry_delay (sample_service False) = 2"
    by (simp_all add: sample_service_def)
  have after2: "provider_after always_refused 2 (provider sample_world) = 2"
    and after3: "provider_after always_refused 3 (provider sample_world) = 3"
    by (simp_all add: numeral_2_eq_2 numeral_3_eq_3 always_refused_def sample_world_def)
  have last_failure: "failure_at always_refused 2 = OtherError ''ConnectionError'' ''refused #2''"
    by (simp add: failure_at_def always_refused_def digits.simps)
  have sleeps: "concat (map (\<lambda>i. [Attempt, Slept (2 * 2 ^ i)]) [0..<2]) = [Attempt, Slept 2, Attempt, Slept 4]"
    by (simp add: numeral_2_eq_2)
  have no_events: "events sample_world = []"
    by (simp add: sample_world_def)
  from retry_api_call_always_failing [OF fails tries(1) delay(1), of sample_world]
  show ?thesis
    using fails tries delay by (simp add: after2 after3 last_failure sleeps no_events)
qed

section \<open>The agent cache only grows\<close>

lemma keys_dict_set: "fst ` set (dict_set c k v) = insert k (fst ` set c)"
proof (induction c)
  case Nil
  show ?case by simp
next
  case (Cons p c)
  obtain k' v' where p: "p = (k', v')" by (cases p)
  show ?case
  proof (cases "k' = k")
    case True
    then show ?thesis by (simp add: p)
  next
    case False
    then show ?thesis using Cons.IH by (simp add: p insert_commute)
  qed
qed

lemma cache_has_put: "cache_has (dict_set c (key_norm a) v) a"
  by (simp add: cache_has_def keys_dict_set)

lemma cache_has_keep: "cache_has c a \<Longrightarrow> cache_has (dict_set c k v) a"
  by (simp add: cache_has_def keys_dict_set)

lemma create_cache:
  assumes "create_restaurant_agent L C restaurant_name customer_info (s, w) = (r, s', w')"
      and "cache_has (agents_cache s) a"
  shows "cache_has (agents_cache s') a"
  using assms
  by (auto simp: create_restaurant_agent_def Let_def cache_has_keep
           split: if_splits sum.splits prod.splits)

lemma create_result_cached:
  assumes "create_restaurant_agent L C restaurant_name customer_info (s, w) = (Inr (agent_id, agent_data), s', w')"
  shows "cache_has (agents_cache s') agent_id"
  using assms
  by (auto simp: create_restaurant_agent_def Let_def cache_has_put
           split: if_splits sum.splits prod.splits)

lemma make_call_cache:
  assumes "make_call L C agent_id phone_number call_context (s, w) = (r, s', w')"
  shows "agents_cache s' = agents_cache s"
  using assms
  by (auto simp: make_call_def Let_def split: if_splits sum.splits prod.splits pyval.splits)

lemma get_call_status_service:
  assumes "get_call_status C call_id (s, w) = (r, s', w')"
  shows "s' = s"
  using assms
  by (auto simp: get_call_status_def split: if_splits sum.splits prod.splits)

lemma get_call_logs_service:
  assumes "get_call_logs C agent_id page page_size (s, w) = (r, s', w')"
  shows "s' = s"
  using assms
  by (auto simp: get_call_logs_def split: if_splits sum.splits prod.splits)

lemma get_agent_details_service:
  assumes "get_agent_details C agent_id (s, w) = (r, s', w')"
  shows "s' = s"
  using assms
  by (auto simp: get_agent_details_def split: if_splits sum.splits prod.splits)

lemma test_api_connection_service:
  assumes "test_api_connection C (s, w) = (r, s', w')"
  shows "s' = s"
  using assms
  by (auto simp: test_api_connection_def split: if_splits sum.splits prod.splits)


lemma reservation_steps_cache:
  assumes "reservation_steps L C restaurant_info reservation_details customer_info restaurant_phone (s, w)
             = (r, s', w')"
      and "cache_has (agents_cache s) a"
  shows "cache_has (agents_cache s') a"
proof -
  obtain r1 s1 w1 where created:
    "create_restaurant_agent L C (dict_get restaurant_info ''name'') customer_info (s, w) = (r1, s1, w1)"
    by (metis prod_cases3)
  from create_cache [OF created assms(2)] have cached: "cache_has (agents_cache s1) a" .
  show ?thesis
  proof (cases r1)
    case (Inl e)
    with assms(1) created cached show ?thesis
      by (simp add: reservation_steps_def)
  next
    case (Inr p)
    obtain agent_id agent_data where p: "p = (agent_id, agent_data)"
      by (cases p)
    from assms(1) created Inr p cached show ?thesis
      by (auto simp: reservation_steps_def Let_def
               split: sum.splits prod.splits
               dest!: make_call_cache get_call_status_service)
  qed
qed

lemma make_restaurant_reservation_cache:
  assumes "make_restaurant_reservation L C restaurant_info reservation_details customer_info (s, w)
             = (r, s', w')"
      and "cache_has (agents_cache s) a"
  shows "cache_has (agents_cache s') a"
  using assms
  by (auto simp: make_restaurant_reservation_def Let_def
           split: if_splits sum.splits
           dest: reservation_steps_cache)

lemma perform_cache:
  assumes "cache_has (agents_cache (fst st)) a"
  shows "cache_has (agents_cache (fst (perform L C req st))) a"
proof -
  obtain s w where st: "st = (s, w)"
    by (cases st)
  show ?thesis
  proof (cases req)
    case (CreateRestaurantAgent restaurant_name customer_info)
    obtain r s' w' where "create_restaurant_agent L C restaurant_name customer_info (s, w) = (r, s', w')"
      by (metis prod_cases3)
    with create_cache [OF this] assms show ?thesis
      by (simp add: CreateRestaurantAgent st)
  next
    case (MakeCall agent_id phone_number call_context)
    obtain r s' w' where "make_call L C agent_id phone_number call_context (s, w) = (r, s', w')"
      by (metis prod_cases3)
    with make_call_cache [OF this] assms show ?thesis
      by (simp add: MakeCall st)
  next
    case (GetCallStatus call_id)
    obtain r s' w' where "get_call_status C call_id (s, w) = (r, s', w')"
      by (metis prod_cases3)
    with get_call_status_service [OF this] assms show ?thesis
      by (simp add: GetCallStatus st)
  next
    case (GetCallLogs agent_id page page_size)
    obtain r s' w' where "get_call_logs C agent_id page page_size (s, w) = (r, s', w')"
      by (metis prod_cases3)
    with get_call_logs_service [OF this] assms show ?thesis
      by (simp add: GetCallLogs st)
  next
    case (MakeRestaurantReservation restaurant_info reservation_details customer_info)
    obtain r s' w' where
      "make_restaurant_reservation L C restaurant_info reservation_details customer_info (s, w) = (r, s', w')"
      by (metis prod_cases3)
    with make_restaurant_reservation_cache [OF this] assms show ?thesis
      by (simp add: MakeRestaurantReservation st)
  next
    case (GetAgentDetails agent_id)
    obtain r s' w' where "get_agent_details C agent_id (s, w) = (r, s', w')"
      by (metis prod_cases3)
    with get_agent_details_service [OF this] assms show ?thesis
      by (simp add: GetAgentDetails st)
  next
    case TestApiConnection
    obtain r s' w' where "test_api_connection C (s, w) = (r, s', w')"
      by (metis prod_cases3)
    with test_api_connection_service [OF this] assms show ?thesis
      by (simp add: TestApiConnection st)
  next
    case (Elapse n)
    with assms show ?thesis
      by simp
  qed
qed

lemma run_cache:
  assumes "cache_has (agents_cache (fst st)) a"
  shows "cache_has (agents_cache (fst (run L C reqs st))) a"
  using assms by (induction reqs arbitrary: st) (simp_all add: perform_cache)


lemma digits_clock: "digits 1750000000 = ''1750000000''"
  by (simp add: digits.simps)

lemma show_clock: "show_int 1750000000 = ''1750000000''"
  by (simp add: show_int_def digits_clock)

lemma sample_created:
  "create_restaurant_agent sample_lib sample_client (VStr ''Spice Garden'')
     [(''name'', VStr ''Ayush Kumar'')] (sample_service True, sample_world) =
   (Inr (sample_agent_id, sample_agent_data),
    (sample_service True)\<lparr>agents_cache := [(sample_agent_id, sample_agent_data)]\<rparr>,
    sample_world)"
proof -
  let ?config = "agent_config sample_lib (VStr ''Spice Garden'') [(''name'', VStr ''Ayush Kumar'')]"
  have name: "dict_get ?config ''name'' = VStr ''Spice Garden - Booking Assistant for Ayush Kumar''"
    unfolding agent_config_name by (simp add: sample_lib_def dict_get_default_def)
  have mock: "create_agent_mock sample_lib ?config sample_world =
                (Inr (sample_agent_id, sample_agent_data), sample_world)"
    unfolding create_agent_mock_def Let_def name
    by (simp add: sample_lib_def sample_world_def show_clock sample_agent_id_def sample_agent_data_def)
  have mode: "mock_mode (sample_service True)" and cache: "agents_cache (sample_service True) = []"
    by (simp_all add: sample_service_def)
  have key: "hashable sample_agent_id" "key_norm sample_agent_id = sample_agent_id"
    by (simp_all add: sample_agent_id_def)
  show ?thesis
    unfolding create_restaurant_agent_def Let_def
    by (simp add: agent_config_valid mode mock key cache)
qed

text \<open>
  Claim C7. An agent identifier that \<open>create_restaurant_agent\<close> has returned is a key
  of the agent cache in the state the call leaves, and it is still a key after any
  sequence of further operations on the service.
\<close>

theorem agent_id_stays_cached:
  assumes "create_restaurant_agent L C restaurant_name customer_info st = (Inr (agent_id, agent_data), st1)"
  shows "cache_has (agents_cache (fst st1)) agent_id
         \<and> cache_has (agents_cache (fst (run L C requests st1))) agent_id"
proof -
  obtain s w where st: "st = (s, w)"
    by (cases st)
  obtain s1 w1 where st1: "st1 = (s1, w1)"
    by (cases st1)
  from assms have "cache_has (agents_cache s1) agent_id"
    unfolding st st1 by (rule create_result_cached)
  then have now: "cache_has (agents_cache (fst st1)) agent_id"
    by (simp add: st1)
  from run_cache [OF now] now show ?thesis
    by blast
qed

theorem agent_id_stays_cached_witness:
  "create_restaurant_agent sample_lib sample_client (VStr ''Spice Garden'')
     [(''name'', VStr ''Ayush Kumar'')] (sample_service True, sample_world) =
   (Inr (sample_agent_id, sample_agent_data),
    (sample_service True)\<lparr>agents_cache := [(sample_agent_id, sample_agent_data)]\<rparr>,
    sample_world)
   \<and> cache_has (agents_cache (fst ((sample_service True)\<lparr>agents_cache := [(sample_agent_id, sample_agent_data)]\<rparr>,
                                      sample_world))) sample_agent_id
   \<and> cache_has (agents_cache (fst (run sample_lib sample_client
          [MakeRestaurantReservation [(''name'', VStr ''Spice Garden''), (''phone'', VStr ''+919876543210'')]
             [(''date'', VStr ''2025-06-23''), (''time'', VStr ''7:30 PM''), (''party_size'', VInt 4)]
             [(''name'', VStr ''Ayush Kumar'')],
           Elapse 60,
           CreateRestaurantAgent (VStr ''Spice Garden'') [],
           GetCallLogs VNone 1 5,
           GetAgentDetails sample_agent_id]
          ((sample_service True)\<lparr>agents_cache := [(sample_agent_id, sample_agent_data)]\<rparr>,
           sample_world)))) sample_agent_id"
  using sample_created agent_id_stays_cached [OF sample_created]
  by (rule conjI)

section \<open>Call logs in mock mode\<close>

text \<open>
  Claim C9. In mock mode \<open>get_call_logs\<close> with \<open>page_size = 0\<close> returns the whole call
  history (the slice \<^verbatim>\<open>[-0:]\<close>), with a positive \<open>page_size\<close> it returns the trailing
  \<open>page_size\<close> entries, and the total of the pagination is the length of the whole
  history whatever \<open>page\<close> and \<open>page_size\<close> are. (A negative \<open>page_size\<close> drops that
  many entries from the front.)
\<close>

theorem get_call_logs_mock_slice:
  assumes "mock_mode s"
  shows "get_call_logs C agent_id page page_size (s, w) =
     (Inr (VDict [(''data'',
                    VList (if page_size = 0 then call_history s
                           else if 0 < page_size
                                then drop (length (call_history s) - nat page_size) (call_history s)
                                else drop (nat (- page_size)) (call_history s))),
                  (''pagination'',
                    VDict [(''page'', VInt page), (''page_size'', VInt page_size),
                           (''total'', VInt (int (length (call_history s))))])]), s, w)"
proof -
  have "slice_from (- page_size) (call_history s) =
          (if page_size = 0 then call_history s
           else if 0 < page_size
                then drop (length (call_history s) - nat page_size) (call_history s)
                else drop (nat (- page_size)) (call_history s))"
    by (auto simp: slice_from_def nat_diff_distrib' intro: arg_cong [where f = "\<lambda>n. drop n (call_history s)"])
  with assms show ?thesis
    by (simp add: get_call_logs_def)
qed

theorem get_call_logs_mock_slice_witness:
  "mock_mode busy_service
   \<and> get_call_logs sample_client VNone 1 0 (busy_service, sample_world) =
      (Inr (VDict [(''data'',
                     VList [VDict [(''id'', VStr ''mock_call_1''), (''status'', VStr ''mock_initiated'')],
                            VDict [(''id'', VStr ''mock_call_2''), (''status'', VStr ''mock_initiated'')]]),
                   (''pagination'',
                     VDict [(''page'', VInt 1), (''page_size'', VInt 0), (''total'', VInt 2)])]),
       busy_service, sample_world)"
proof -
  have mock: "mock_mode busy_service"
    by (simp add: busy_service_def sample_service_def)
  have history: "call_history busy_service =
      [VDict [(''id'', VStr ''mock_call_1''), (''status'', VStr ''mock_initiated'')],
       VDict [(''id'', VStr ''mock_call_2''), (''status'', VStr ''mock_initiated'')]]"
    by (simp add: busy_service_def)
  have logs: "get_call_logs sample_client VNone 1 0 (busy_service, sample_world) =
      (Inr (VDict [(''data'',
                     VList [VDict [(''id'', VStr ''mock_call_1''), (''status'', VStr ''mock_initiated'')],
                            VDict [(''id'', VStr ''mock_call_2''), (''status'', VStr ''mock_initiated'')]]),
                   (''pagination'',
                     VDict [(''page'', VInt 1), (''page_size'', VInt 0), (''total'', VInt 2)])]),
       busy_service, sample_world)"
    unfolding get_call_logs_mock_slice [OF mock] history by simp
  from mock logs show ?thesis
    by (rule conjI)
qed

section \<open>Failures before anything is done\<close>

text \<open>
  Claim C1, as amended. When \<open>restaurant_info\<close> is empty or has no non-empty name,
  \<open>make_restaurant_reservation\<close> raises the \<^verbatim>\<open>ValueError\<close> of its first check (it does
  not return a failure dictionary), and it leaves the service and the world as they were:
  no agent is cached and no call, real or mock, is made.
\<close>

theorem reservation_without_name_raises:
  assumes "restaurant_info = [] \<or> \<not> truthy (dict_get restaurant_info ''name'')"
  shows "make_restaurant_reservation L C restaurant_info reservation_details customer_info (s, w) =
           (Inl (ValueError ''Restaurant info with name is required''), s, w)"
  using assms by (simp add: make_restaurant_reservation_def)

theorem reservation_without_name_raises_witness:
  "([(''phone'', VStr ''+919876543210'')] = [] \<or> \<not> truthy (dict_get [(''phone'', VStr ''+919876543210'')] ''name''))
   \<and> make_restaurant_reservation sample_lib sample_client
        [(''phone'', VStr ''+919876543210'')]
        [(''date'', VStr ''2025-06-23'')]
        [(''name'', VStr ''Ayush Kumar'')]
        (sample_service True, sample_world) =
      (Inl (ValueError ''Restaurant info with name is required''), sample_service True, sample_world)"
proof -
  have nameless: "[(''phone'', VStr ''+919876543210'')] = [] \<or> \<not> truthy (dict_get [(''phone'', VStr ''+919876543210'')] ''name'')"
    by (simp add: dict_eval)
  from nameless reservation_without_name_raises [OF nameless]
  show ?thesis
    by (rule conjI)
qed

text \<open>
  The claim as it was stated, that an empty restaurant name gives a failure dictionary
  and no exception, fails: with the name \<^verbatim>\<open>""\<close> the call raises.
\<close>

theorem reservation_empty_name_counterexample:
  "fst (make_restaurant_reservation sample_lib sample_client
          [(''name'', VStr [])]
          [(''date'', VStr ''2025-06-23''), (''party_size'', VInt 4)]
          [(''name'', VStr ''Ayush Kumar'')]
          (sample_service True, sample_world)) =
     Inl (ValueError ''Restaurant info with name is required'')"
  by (simp add: make_restaurant_reservation_def dict_eval)

text \<open>
  Claim C5. With a non-empty agent identifier and a resolved phone number (the given one,
  or the test number when none is given) that fails the validation, \<open>make_call\<close> raises
  a \<^verbatim>\<open>ValueError\<close> and changes nothing: the call history is as before.
\<close>

theorem make_call_invalid_phone:
  assumes "truthy agent_id"
      and "validate_phone_number (py_or phone_number (VStr (test_phone s))) = Inr False"
  shows "make_call L C agent_id phone_number call_context (s, w) =
           (Inl (ValueError (''Invalid phone number: ''
                             @ str_of L (py_or phone_number (VStr (test_phone s))))), s, w)"
  using assms by (simp add: make_call_def Let_def)

theorem make_call_invalid_phone_witness:
  "truthy (VStr ''mock_agent_1'')
   \<and> validate_phone_number (py_or (VStr ''12345'') (VStr (test_phone (sample_service True)))) = Inr False
   \<and> make_call sample_lib sample_client (VStr ''mock_agent_1'') (VStr ''12345'') VNone
        (sample_service True, sample_world) =
      (Inl (ValueError ''Invalid phone number: 12345''), sample_service True, sample_world)"
proof -
  have agent: "truthy (VStr ''mock_agent_1'')"
    by simp
  have phone: "py_or (VStr ''12345'') (VStr (test_phone (sample_service True))) = VStr ''12345''"
    by (simp add: py_or_def)
  have invalid: "validate_phone_number (py_or (VStr ''12345'') (VStr (test_phone (sample_service True)))) = Inr False"
    unfolding phone by (rule short_phone_invalid)
  have message: "''Invalid phone number: '' @ str_of sample_lib (VStr ''12345'') = ''Invalid phone number: 12345''"
    by (simp add: sample_lib_def)
  have raised: "make_call sample_lib sample_client (VStr ''mock_agent_1'') (VStr ''12345'') VNone
        (sample_service True, sample_world) =
      (Inl (ValueError ''Invalid phone number: 12345''), sample_service True, sample_world)"
    unfolding make_call_invalid_phone [OF agent invalid] phone message ..
  from agent invalid raised show ?thesis
    by (intro conjI)
qed

section \<open>The call identifier of a real dispatch\<close>

lemma retry_api_call_first_success:
  assumes "0 < max_retries s" and "api_func (provider w) = (Inr v, x)"
  shows "retry_api_call s api_func w = (Inr v, w\<lparr>events := events w @ [Attempt], provider := x\<rparr>)"
  using assms by (simp add: retry_api_call_def upt_conv_Cons invoke_def)

lemma make_call_real:
  assumes "\<not> mock_mode s"
      and "truthy agent_id"
      and "validate_phone_number (py_or phone_number (VStr (test_phone s))) = Inr True"
      and "retry_api_call s
             (call_dispatch_call C
                [(''agent_id'', agent_id),
                 (''to_number'', py_or phone_number (VStr (test_phone s))),
                 (''call_context'', py_or (py_or call_context (VDict [])) (VDict []))])
             (verify_agent C agent_id w) = (Inr response, w1)"
      and "handle_response response = VDict d"
  shows "fst (make_call L C agent_id phone_number call_context (s, w)) =
           (if truthy (dict_get d ''id'') then Inr (dict_get d ''id'', VDict d)
            else if truthy (dict_get d ''call_id'') then Inr (dict_get d ''call_id'', VDict d)
            else if truthy (dict_get d ''uuid'') then Inr (dict_get d ''uuid'', VDict d)
            else Inl (ValueError (''Call dispatch failed - no call ID returned. Response: ''
                                  @ str_of L (VDict d))))"
proof -
  let ?phone = "py_or phone_number (VStr (test_phone s))"
  let ?ctx = "py_or call_context (VDict [])"
  let ?call_id = "py_or (dict_get d ''id'') (py_or (dict_get d ''call_id'') (dict_get d ''uuid''))"
  have dispatched: "dispatch_real L C s agent_id ?phone ?ctx (verify_agent C agent_id w) =
          (if \<not> truthy ?call_id
           then (Inl (ValueError (''Call dispatch failed - no call ID returned. Response: ''
                                  @ str_of L (VDict d))), w1)
           else (Inr (?call_id, VDict d), w1))"
    using assms(4,5) by (simp add: dispatch_real_def Let_def)
  have "fst (make_call L C agent_id phone_number call_context (s, w)) =
          (if \<not> truthy ?call_id
           then Inl (ValueError (''Call dispatch failed - no call ID returned. Response: ''
                                 @ str_of L (VDict d)))
           else Inr (?call_id, VDict d))"
    using assms(1,2,3) by (simp add: make_call_def Let_def dispatched)
  then show ?thesis
    by (simp add: py_or_def)
qed

lemma sample_dispatch:
  "retry_api_call (sample_service False)
     (call_dispatch_call sample_client kwargs)
     (verify_agent sample_client agent_id sample_world) =
   (Inr (VDict sample_answer),
    \<lparr>clock = 1750000000, events = [Attempt], provider = 2\<rparr>)"
proof -
  let ?w = "\<lparr>clock = 1750000000, events = [], provider = 1::nat\<rparr>"
  have verified: "verify_agent sample_client agent_id sample_world = ?w"
    by (simp add: verify_agent_def invoke_def sample_client_def sample_world_def)
  have tries: "0 < max_retries (sample_service False)"
    by (simp add: sample_service_def)
  have answer: "call_dispatch_call sample_client kwargs (provider ?w) =
      (Inr (VDict sample_answer), 2)"
    by (simp add: sample_client_def sample_answer_def)
  have "retry_api_call (sample_service False) (call_dispatch_call sample_client kwargs) ?w =
          (Inr (VDict sample_answer),
           ?w\<lparr>events := events ?w @ [Attempt], provider := 2\<rparr>)"
    using tries answer
    by (rule retry_api_call_first_success
               [where s = "sample_service False" and w = ?w and x = 2
                  and api_func = "call_dispatch_call sample_client kwargs"])
  then show ?thesis
    unfolding verified by simp
qed

text \<open>
  Claim C6, as amended. In real mode, when the dispatch returns a response that
  normalises to a dictionary, \<open>make_call\<close> takes as call identifier the value of the
  first of the keys \<^verbatim>\<open>id\<close>, \<^verbatim>\<open>call_id\<close>, \<^verbatim>\<open>uuid\<close> whose value is truthy (a key that
  is present with \<^verbatim>\<open>None\<close>, an empty string or zero is passed over), and raises a
  \<^verbatim>\<open>ValueError\<close> when none of the three has a truthy value.
\<close>

theorem make_call_real_call_id:
  assumes "\<not> mock_mode s"
      and "truthy agent_id"
      and "validate_phone_number (py_or phone_number (VStr (test_phone s))) = Inr True"
      and "retry_api_call s
             (call_dispatch_call C
                [(''agent_id'', agent_id),
                 (''to_number'', py_or phone_number (VStr (test_phone s))),
                 (''call_context'', py_or (py_or call_context (VDict [])) (VDict []))])
             (verify_agent C agent_id w) = (Inr response, w1)"
      and "handle_response response = VDict d"
  shows "fst (make_call L C agent_id phone_number call_context (s, w)) =
           (if truthy (dict_get d ''id'') then Inr (dict_get d ''id'', VDict d)
            else if truthy (dict_get d ''call_id'') then Inr (dict_get d ''call_id'', VDict d)
            else if truthy (dict_get d ''uuid'') then Inr (dict_get d ''uuid'', VDict d)
            else Inl (ValueError (''Call dispatch failed - no call ID returned. Response: ''
                                  @ str_of L (VDict d))))"
  using assms by (rule make_call_real)

theorem make_call_real_call_id_witness:
  "\<not> mock_mode (sample_service False)
   \<and> truthy (VStr ''agent-2'')
   \<and> validate_phone_number (py_or VNone (VStr (test_phone (sample_service False)))) = Inr True
   \<and> retry_api_call (sample_service False)
         (call_dispatch_call sample_client
            [(''agent_id'', VStr ''agent-2''),
             (''to_number'', py_or VNone (VStr (test_phone (sample_service False)))),
             (''call_context'', py_or (py_or VNone (VDict [])) (VDict []))])
         (verify_agent sample_client (VStr ''agent-2'') sample_world) =
       (Inr (VDict sample_answer), \<lparr>clock = 1750000000, events = [Attempt], provider = 2\<rparr>)
   \<and> handle_response (VDict sample_answer) = VDict sample_answer
   \<and> fst (make_call sample_lib sample_client (VStr ''agent-2'') VNone VNone
             (sample_service False, sample_world)) =
       Inr (VStr ''call-1'', VDict sample_answer)"
proof -
  have real: "\<not> mock_mode (sample_service False)"
    by (simp add: sample_service_def)
  have agent: "truthy (VStr ''agent-2'')"
    by simp
  have valid: "validate_phone_number (py_or VNone (VStr (test_phone (sample_service False)))) = Inr True"
    by (simp add: py_or_def sample_service_def test_phone_valid)
  have flat: "handle_response (VDict sample_answer) = VDict sample_answer"
    by (simp add: handle_response_def sample_answer_def dict_eval)
  have "fst (make_call sample_lib sample_client (VStr ''agent-2'') VNone VNone
          (sample_service False, sample_world)) =
        (if truthy (dict_get sample_answer ''id'') then Inr (dict_get sample_answer ''id'', VDict sample_answer)
         else if truthy (dict_get sample_answer ''call_id'')
              then Inr (dict_get sample_answer ''call_id'', VDict sample_answer)
         else if truthy (dict_get sample_answer ''uuid'')
              then Inr (dict_get sample_answer ''uuid'', VDict sample_answer)
         else Inl (ValueError (''Call dispatch failed - no call ID returned. Response: ''
                               @ str_of sample_lib (VDict sample_answer))))"
    by (rule make_call_real_call_id [OF real agent valid sample_dispatch flat])
  also have "\<dots> = Inr (dict_get sample_answer ''call_id'', VDict sample_answer)"
    by (simp add: sample_answer_def dict_eval)
  also have "dict_get sample_answer ''call_id'' = VStr ''call-1''"
    by (simp add: sample_answer_def dict_eval)
  finally have extracted:
    "fst (make_call sample_lib sample_client (VStr ''agent-2'') VNone VNone
          (sample_service False, sample_world)) = Inr (VStr ''call-1'', VDict sample_answer)" .
  from real agent valid sample_dispatch flat extracted show ?thesis
    by (intro conjI)
qed

text \<open>
  The claim as it was stated, that the first of the three keys that is present gives the
  identifier, fails on a response whose \<^verbatim>\<open>id\<close> is present and null: \<open>make_call\<close>
  returns the value under \<^verbatim>\<open>call_id\<close>, while the first present key holds \<^verbatim>\<open>None\<close>.
\<close>

theorem make_call_null_id_counterexample:
  "fst (make_call sample_lib sample_client (VStr ''agent-1'') (VStr ''+919876543210'') VNone
          (sample_service False, sample_world)) =
     Inr (VStr ''call-1'',
          VDict sample_answer)
   \<and> first_present_call_id sample_answer
       = Some VNone"
proof -
  let ?d = "sample_answer"
  have real: "\<not> mock_mode (sample_service False)"
    by (simp add: sample_service_def)
  have agent: "truthy (VStr ''agent-1'')"
    by simp
  have valid: "validate_phone_number
                 (py_or (VStr ''+919876543210'') (VStr (test_phone (sample_service False)))) = Inr True"
    by (simp add: py_or_def sample_phone_valid)
  have flat: "handle_response (VDict ?d) = VDict ?d"
    by (simp add: handle_response_def sample_answer_def dict_eval)
  have "fst (make_call sample_lib sample_client (VStr ''agent-1'') (VStr ''+919876543210'') VNone
          (sample_service False, sample_world)) =
        (if truthy (dict_get ?d ''id'') then Inr (dict_get ?d ''id'', VDict ?d)
         else if truthy (dict_get ?d ''call_id'') then Inr (dict_get ?d ''call_id'', VDict ?d)
         else if truthy (dict_get ?d ''uuid'') then Inr (dict_get ?d ''uuid'', VDict ?d)
         else Inl (ValueError (''Call dispatch failed - no call ID returned. Response: ''
                               @ str_of sample_lib (VDict ?d))))"
    by (rule make_call_real [OF real agent valid sample_dispatch flat])
  also have "\<dots> = Inr (VStr ''call-1'', VDict ?d)"
    by (simp add: sample_answer_def dict_eval)
  finally have extracted:
    "fst (make_call sample_lib sample_client (VStr ''agent-1'') (VStr ''+919876543210'') VNone
          (sample_service False, sample_world)) = Inr (VStr ''call-1'', VDict ?d)" .
  have present: "first_present_call_id ?d = Some VNone"
    by (simp add: first_present_call_id_def sample_answer_def dict_eval)
  from extracted present show ?thesis
    by (rule conjI)
qed

end
